theory Spec2Isabelle
  imports Main
begin

section \<open>World model\<close>

text \<open>
  Modelled from the spec: the declarations of \<open>ObjectDefinition\<close> and \<open>WorldState\<close>
  (World.ts) are not among the sources. Section 3 of the specification gives an object a
  form (one of brick, plank, ball, pyramid, box, table, floor), a size (small or large) and
  a colour, and a world state its stacks (columns, each bottom-to-top), the column index of
  the arm, the optionally held key and the object table. Keys are JavaScript strings.
  The object table is a JavaScript object; it is kept as an association list in the
  enumeration order of \<open>for (key in state.objects)\<close>, looked up with \<open>map_of\<close>.
  A \<open>holding\<close> of \<open>None\<close> stands for \<open>null\<close> and \<open>undefined\<close> alike (the code
  compares them with \<open>==\<close> and \<open>!=\<close> only, which do not tell them apart).
\<close>

datatype Form = FBrick | FPlank | FBall | FPyramid | FBox | FTable | FFloor

datatype Size = Small | Large

fun formName :: "Form \<Rightarrow> string" where
  "formName FBrick = ''brick''"
| "formName FPlank = ''plank''"
| "formName FBall = ''ball''"
| "formName FPyramid = ''pyramid''"
| "formName FBox = ''box''"
| "formName FTable = ''table''"
| "formName FFloor = ''floor''"

fun sizeName :: "Size \<Rightarrow> string" where
  "sizeName Small = ''small''"
| "sizeName Large = ''large''"

record ObjectDefinition =
  form :: Form
  osize :: Size
  color :: string

record WorldState =
  stacks :: "string list list"
  holding :: "string option"
  arm :: int
  objects :: "(string \<times> ObjectDefinition) list"
  examples :: "string list"

text \<open>
  JavaScript truthiness of a key-valued expression: \<open>null\<close>, \<open>undefined\<close> and the
  empty string are falsy, every other string is truthy.
\<close>

fun truthy :: "string option \<Rightarrow> bool" where
  "truthy None = False"
| "truthy (Some k) = (k \<noteq> [])"

section \<open>Interpreter: object table lookups and the physical rule table\<close>

text \<open>\<open>getObjectSize\<close>: the size recorded for the key, \<open>None\<close> (null) for an unknown key.\<close>

definition getObjectSize :: "string \<Rightarrow> WorldState \<Rightarrow> Size option" where
  "getObjectSize objectKey st = map_option osize (map_of (objects st) objectKey)"

text \<open>\<open>getObjectForm\<close>: the key \<open>"floor"\<close> has form floor whatever the table says.\<close>

definition getObjectForm :: "string \<Rightarrow> WorldState \<Rightarrow> Form option" where
  "getObjectForm objectKey st =
     (if objectKey = ''floor'' then Some FFloor
      else map_option form (map_of (objects st) objectKey))"

text \<open>
  \<open>isMoveValid\<close>: an \<open>if / else if\<close> chain. The second branch holds a nested \<open>if\<close>
  with no \<open>else\<close>: when its outer condition holds and the inner one does not, control
  leaves the chain and reaches the final \<open>return true\<close>.
\<close>

definition isMoveValid :: "string \<Rightarrow> string \<Rightarrow> string \<Rightarrow> WorldState \<Rightarrow> bool" where
  "isMoveValid objectToMove relation targetObject st =
     (if relation = ''inside'' \<and>
         (getObjectSize objectToMove st = Some Large \<and> getObjectSize targetObject st = Some Small) \<and>
         getObjectForm targetObject st = Some FBox
      then False
      else if (relation = ''inside'' \<or> relation = ''ontop'') \<and>
              (getObjectForm objectToMove st = Some FBox \<or>
               getObjectForm objectToMove st = Some FPlank \<or>
               getObjectForm objectToMove st = Some FPyramid) \<and>
              getObjectForm targetObject st = Some FBox
      then (if getObjectSize objectToMove st = Some Large \<or> getObjectSize targetObject st = Some Small
            then False else True)
      else if (relation = ''inside'' \<or> relation = ''ontop'') \<and>
              getObjectForm objectToMove st = Some FBox \<and>
              (getObjectForm targetObject st = Some FBrick \<or>
               getObjectForm targetObject st = Some FPyramid)
      then False
      else if relation = ''ontop'' \<and> getObjectForm objectToMove st = Some FBall \<and>
              getObjectForm targetObject st \<noteq> Some FFloor
      then False
      else if targetObject = objectToMove
      then False
      else True)"

section \<open>Interpreter: spatial predicates\<close>

text \<open>\<open>doesObjectExist\<close>: the key is held, or is an element of some stack.\<close>

definition doesObjectExist :: "string option \<Rightarrow> string list list \<Rightarrow> string \<Rightarrow> bool" where
  "doesObjectExist hold stks searched_object =
     (if hold = Some searched_object then True
      else list_ex (\<lambda>stack. list_ex (\<lambda>obj. obj = searched_object) stack) stks)"

text \<open>
  \<open>isInside\<close>: the loop returns at the element after the first occurrence of
  \<open>objectBelow\<close>; the flag \<open>foundObjectBelow\<close> is the last argument of the loop function.
\<close>

fun isInsideLoop :: "string list \<Rightarrow> string \<Rightarrow> string \<Rightarrow> bool \<Rightarrow> bool" where
  "isInsideLoop [] objectInside objectBelow found = False"
| "isInsideLoop (obj # rest) objectInside objectBelow found =
     (if found then obj = objectInside
      else isInsideLoop rest objectInside objectBelow (obj = objectBelow))"

definition isInside :: "string list \<Rightarrow> string \<Rightarrow> string \<Rightarrow> WorldState \<Rightarrow> bool" where
  "isInside stack objectInside objectBelow st =
     (if getObjectForm objectBelow st \<noteq> Some FTable
      then isInsideLoop stack objectInside objectBelow False
      else False)"

text \<open>
  \<open>isRightOf\<close>, \<open>isLeftOf\<close> and \<open>isBeside\<close> run the same pair of nested loops: in every
  stack, bottom to top, the first element equal to one of the two keys records that stack's
  number for that key and ends the inner loop (\<open>break\<close>); the outer loop goes on, so a later
  stack overwrites an earlier one. Both numbers start at \<open>-10\<close>.
\<close>

fun scanStack :: "string list \<Rightarrow> string \<Rightarrow> string \<Rightarrow> int \<Rightarrow> int \<times> int \<Rightarrow> int \<times> int" where
  "scanStack [] firstObject secondObject stack_number nrs = nrs"
| "scanStack (obj # rest) firstObject secondObject stack_number nrs =
     (if obj = firstObject then (stack_number, snd nrs)
      else if obj = secondObject then (fst nrs, stack_number)
      else scanStack rest firstObject secondObject stack_number nrs)"

fun scanStacks :: "string list list \<Rightarrow> string \<Rightarrow> string \<Rightarrow> int \<Rightarrow> int \<times> int \<Rightarrow> int \<times> int" where
  "scanStacks [] firstObject secondObject stack_number nrs = nrs"
| "scanStacks (stack # rest) firstObject secondObject stack_number nrs =
     scanStacks rest firstObject secondObject (stack_number + 1)
       (scanStack stack firstObject secondObject stack_number nrs)"

definition isRightOf :: "string list list \<Rightarrow> string \<Rightarrow> string \<Rightarrow> bool" where
  "isRightOf stks rightObject secondObject =
     (case scanStacks stks rightObject secondObject 0 (-10, -10) of
        (rightObjectStackNr, secondObjectStackNr) \<Rightarrow>
          secondObjectStackNr \<noteq> -10 \<and> rightObjectStackNr \<noteq> -10 \<and>
          rightObjectStackNr - secondObjectStackNr > 0)"

definition isLeftOf :: "string list list \<Rightarrow> string \<Rightarrow> string \<Rightarrow> bool" where
  "isLeftOf stks leftObject secondObject =
     (case scanStacks stks leftObject secondObject 0 (-10, -10) of
        (leftObjectStackNr, secondObjectStackNr) \<Rightarrow>
          secondObjectStackNr \<noteq> -10 \<and> leftObjectStackNr \<noteq> -10 \<and>
          secondObjectStackNr - leftObjectStackNr > 0)"

definition isBeside :: "string list list \<Rightarrow> string \<Rightarrow> string \<Rightarrow> bool" where
  "isBeside stks firstObject secondObject =
     (case scanStacks stks firstObject secondObject 0 (-10, -10) of
        (firstObjectStackNr, secondObjectStackNr) \<Rightarrow>
          \<bar>secondObjectStackNr - firstObjectStackNr\<bar> = 1)"

text \<open>\<open>isAbove\<close>: three tests per element, in the source's order.\<close>

fun isAboveLoop :: "string list \<Rightarrow> string \<Rightarrow> string \<Rightarrow> bool \<Rightarrow> bool" where
  "isAboveLoop [] objectAbove objectUnder found = False"
| "isAboveLoop (obj # rest) objectAbove objectUnder found =
     (if found \<and> obj = objectAbove then True
      else if objectUnder = ''floor'' \<and> obj = objectAbove then True
      else isAboveLoop rest objectAbove objectUnder (found \<or> obj = objectUnder))"

definition isAbove :: "string list \<Rightarrow> string \<Rightarrow> string \<Rightarrow> WorldState \<Rightarrow> bool" where
  "isAbove stack objectAbove objectUnder st =
     (if getObjectForm objectAbove st \<noteq> Some FFloor
      then isAboveLoop stack objectAbove objectUnder False
      else False)"

fun isUnderLoop :: "string list \<Rightarrow> string \<Rightarrow> string \<Rightarrow> bool \<Rightarrow> bool" where
  "isUnderLoop [] objectUnder objectAbove found = False"
| "isUnderLoop (obj # rest) objectUnder objectAbove found =
     (if found \<and> obj = objectAbove then True
      else isUnderLoop rest objectUnder objectAbove (found \<or> obj = objectUnder))"

definition isUnder :: "string list \<Rightarrow> string \<Rightarrow> string \<Rightarrow> WorldState \<Rightarrow> bool" where
  "isUnder stack objectUnder objectAbove st =
     (if getObjectForm objectAbove st \<noteq> Some FFloor \<and> getObjectForm objectUnder st \<noteq> Some FFloor
      then isUnderLoop stack objectUnder objectAbove False
      else False)"

text \<open>
  \<open>isOnTop\<close>: the loop index \<open>key\<close> is the fourth argument (the test \<open>key == "0"\<close>),
  the flag \<open>foundObjectBelow\<close> the fifth.
\<close>

fun isOnTopLoop :: "string list \<Rightarrow> string \<Rightarrow> string \<Rightarrow> nat \<Rightarrow> bool \<Rightarrow> bool" where
  "isOnTopLoop [] objectOnTop objectBelow key found = False"
| "isOnTopLoop (obj # rest) objectOnTop objectBelow key found =
     (if found then obj = objectOnTop
      else if objectBelow = ''floor'' \<and> obj = objectOnTop \<and> key = 0 then True
      else isOnTopLoop rest objectOnTop objectBelow (Suc key) (obj = objectBelow))"

definition isOnTop :: "string list \<Rightarrow> string \<Rightarrow> string \<Rightarrow> WorldState \<Rightarrow> bool" where
  "isOnTop stack objectOnTop objectBelow st =
     (if getObjectForm objectOnTop st \<noteq> Some FFloor
      then isOnTopLoop stack objectOnTop objectBelow 0 False
      else False)"

section \<open>Formulas\<close>

datatype error = TypeError | Thrown string

record Literal =
  polarity :: bool
  relation :: string
  args :: "string list"

type_synonym Conjunction = "Literal list"

type_synonym DNFFormula = "Conjunction list"

text \<open>\<open>args[i]\<close>: reading past the end of a JavaScript array gives \<open>undefined\<close> (\<open>None\<close>).\<close>

fun argAt :: "string list \<Rightarrow> nat \<Rightarrow> string option" where
  "argAt [] i = None"
| "argAt (x # xs) 0 = Some x"
| "argAt (x # xs) (Suc i) = argAt xs i"

text \<open>
  The spatial predicates are declared on keys. They are also called with \<open>args[1]\<close> of a
  one-argument literal (\<open>undefined\<close>) and with the \<open>null\<close> location of an
  \<open>ObjectRelations\<close>: such a value is \<open>==\<close> to no element of a stack and has no form
  (\<open>getObjectForm\<close> returns \<open>null\<close>), so none of the loops finds it, \<open>isBeside\<close> sees a
  distance of \<open>0\<close> or of at least \<open>10\<close>, and every predicate returns false.
\<close>

definition onKeys :: "(string \<Rightarrow> string \<Rightarrow> bool) \<Rightarrow> string option \<Rightarrow> string option \<Rightarrow> bool" where
  "onKeys p a b =
     (case a of None \<Rightarrow> False
      | Some x \<Rightarrow> (case b of None \<Rightarrow> False | Some y \<Rightarrow> p x y))"

section \<open>Planner: goal test\<close>

text \<open>The body of the loop \<open>for (var stack of state.stacks)\<close> of the goal test.\<close>

definition relationInStack ::
  "string \<Rightarrow> string list \<Rightarrow> string option \<Rightarrow> string option \<Rightarrow> WorldState \<Rightarrow> bool" where
  "relationInStack rel stack a0 a1 st =
     (if rel = ''inside'' then onKeys (\<lambda>x y. isInside stack x y st) a0 a1
      else if rel = ''ontop'' then onKeys (\<lambda>x y. isOnTop stack x y st) a0 a1
      else if rel = ''above'' then onKeys (\<lambda>x y. isAbove stack x y st) a0 a1
      else if rel = ''under'' then onKeys (\<lambda>x y. isUnder stack x y st) a0 a1
      else False)"

text \<open>
  \<open>isInterpretationInCurrentWorldstate\<close>: \<open>holding\<close> compares \<open>state.holding\<close> with
  \<open>args[0]\<close> by \<open>==\<close> (so \<open>null == undefined\<close> holds); the stack loop returns true at the
  first stack where the predicate holds and false after the last. The polarity of the
  literal is not read.
\<close>

definition isInterpretationInCurrentWorldstate :: "Literal \<Rightarrow> WorldState \<Rightarrow> bool" where
  "isInterpretationInCurrentWorldstate lit st =
     (if relation lit = ''beside''
      then onKeys (isBeside (stacks st)) (argAt (args lit) 0) (argAt (args lit) 1)
      else if relation lit = ''leftof''
      then onKeys (isLeftOf (stacks st)) (argAt (args lit) 0) (argAt (args lit) 1)
      else if relation lit = ''rightof''
      then onKeys (isRightOf (stacks st)) (argAt (args lit) 0) (argAt (args lit) 1)
      else if relation lit = ''holding''
      then holding st = argAt (args lit) 0
      else list_ex (\<lambda>stack. relationInStack (relation lit) stack
                      (argAt (args lit) 0) (argAt (args lit) 1) st) (stacks st))"

datatype SNode = SNode (state: WorldState)

text \<open>
  \<open>isGoal\<close>: the loop over the conjunctions of the formula tests \<open>_interpretation[0]\<close>,
  the first literal of each; on an empty conjunction that is \<open>undefined\<close> and reading its
  \<open>relation\<close> throws.
\<close>

fun isGoal :: "DNFFormula \<Rightarrow> SNode \<Rightarrow> error + bool" where
  "isGoal [] node = Inr False"
| "isGoal ([] # rest) node = Inl TypeError"
| "isGoal ((lit # lits) # rest) node =
     (if isInterpretationInCurrentWorldstate lit (state node) then Inr True
      else isGoal rest node)"

text \<open>
  The goal test in the words of the specification: a literal is true when its relation
  holds exactly if its polarity says so; a formula is satisfied when some conjunction has
  all of its literals true.
\<close>

definition literalTrue :: "Literal \<Rightarrow> WorldState \<Rightarrow> bool" where
  "literalTrue lit st = (polarity lit = isInterpretationInCurrentWorldstate lit st)"

definition formulaSatisfied :: "DNFFormula \<Rightarrow> WorldState \<Rightarrow> bool" where
  "formulaSatisfied formula st = list_ex (list_all (\<lambda>lit. literalTrue lit st)) formula"

section \<open>Planner: the search graph\<close>

record EdgeWithCommand =
  from_node :: SNode
  to_node :: SNode
  cost :: int
  command :: string

definition mkEdge :: "SNode \<Rightarrow> WorldState \<Rightarrow> string \<Rightarrow> EdgeWithCommand" where
  "mkEdge node tmpState c = \<lparr>from_node = node, to_node = SNode tmpState, cost = 1, command = c\<rparr>"

text \<open>
  \<open>node.state.stacks[node.state.arm]\<close>: \<open>undefined\<close> (\<open>None\<close>) unless the arm is over a
  column; reading \<open>length\<close> of it then throws, in the first statement of \<open>outgoingEdges\<close>.
\<close>

definition currentColumn :: "WorldState \<Rightarrow> string list option" where
  "currentColumn st =
     (if 0 \<le> arm st \<and> arm st < int (length (stacks st))
      then Some (stacks st ! nat (arm st)) else None)"

text \<open>\<open>targetObject\<close>: the top of the column, \<open>undefined\<close> for an empty column.\<close>

definition topOf :: "string list \<Rightarrow> string option" where
  "topOf col = (if col = [] then None else Some (last col))"

definition leftEdges :: "SNode \<Rightarrow> EdgeWithCommand list" where
  "leftEdges node =
     (if arm (state node) > 0
      then [mkEdge node
              \<lparr>stacks = stacks (state node), holding = holding (state node),
               arm = arm (state node) - 1, objects = objects (state node),
               examples = examples (state node)\<rparr> ''l'']
      else [])"

definition rightEdges :: "SNode \<Rightarrow> EdgeWithCommand list" where
  "rightEdges node =
     (if arm (state node) < int (length (stacks (state node))) - 1
      then [mkEdge node
              \<lparr>stacks = stacks (state node), holding = holding (state node),
               arm = arm (state node) + 1, objects = objects (state node),
               examples = examples (state node)\<rparr> ''r'']
      else [])"

text \<open>
  The drop test \<open>holding && (targetObject ? valid ontop || valid inside : true)\<close> reads
  both operands by truthiness: a held or topmost empty-string key counts as absent.
\<close>

definition canDrop :: "WorldState \<Rightarrow> string list \<Rightarrow> bool" where
  "canDrop st col =
     (case holding st of
        None \<Rightarrow> False
      | Some h \<Rightarrow>
          h \<noteq> [] \<and>
          (if truthy (topOf col)
           then isMoveValid h ''ontop'' (last col) st \<or> isMoveValid h ''inside'' (last col) st
           else True))"

definition dropEdges :: "SNode \<Rightarrow> string list \<Rightarrow> EdgeWithCommand list" where
  "dropEdges node col =
     (case holding (state node) of
        None \<Rightarrow> []
      | Some h \<Rightarrow>
          if canDrop (state node) col
          then [mkEdge node
                  \<lparr>stacks = (stacks (state node))[nat (arm (state node)) := col @ [h]],
                   holding = None, arm = arm (state node), objects = objects (state node),
                   examples = examples (state node)\<rparr> ''d'']
          else [])"

definition pickEdges :: "SNode \<Rightarrow> string list \<Rightarrow> EdgeWithCommand list" where
  "pickEdges node col =
     (if \<not> truthy (holding (state node)) \<and> length col \<noteq> 0
      then [mkEdge node
              \<lparr>stacks = (stacks (state node))[nat (arm (state node)) := butlast col],
               holding = Some (last col), arm = arm (state node),
               objects = objects (state node), examples = examples (state node)\<rparr> ''p'']
      else [])"

text \<open>\<open>SGraph.outgoingEdges\<close>: the edges in the order left, right, drop, pick.\<close>

definition outgoingEdges :: "SNode \<Rightarrow> error + EdgeWithCommand list" where
  "outgoingEdges node =
     (case currentColumn (state node) of
        None \<Rightarrow> Inl TypeError
      | Some col \<Rightarrow> Inr (leftEdges node @ rightEdges node @ dropEdges node col @ pickEdges node col))"

text \<open>
  \<open>SGraph.compareNodes\<close>: the loops run over the columns and elements of \<open>theOther\<close>;
  \<open>one.state.stacks[i][j]\<close> is \<open>undefined\<close> past the end of a column of \<open>one\<close> (falsy,
  so the answer is 1) and throws when \<open>one\<close> has no column \<open>i\<close>. The two functions walk
  both lists in step instead of indexing; the first returns whether \<open>return 1\<close> was reached.
\<close>

fun compareStack :: "string list \<Rightarrow> string list \<Rightarrow> bool" where
  "compareStack ones [] = False"
| "compareStack [] (y # ys) = True"
| "compareStack (x # xs) (y # ys) = (if x = [] \<or> x \<noteq> y then True else compareStack xs ys)"

fun compareStacks :: "string list list \<Rightarrow> string list list \<Rightarrow> error + int" where
  "compareStacks ones [] = Inr 0"
| "compareStacks [] (ys # yss) = (if ys = [] then compareStacks [] yss else Inl TypeError)"
| "compareStacks (xs # xss) (ys # yss) =
     (if compareStack xs ys then Inr 1 else compareStacks xss yss)"

definition compareNodes :: "SNode \<Rightarrow> SNode \<Rightarrow> error + int" where
  "compareNodes one theOther =
     (if holding (state one) \<noteq> holding (state theOther) then Inr 1
      else if arm (state one) \<noteq> arm (state theOther) then Inr 1
      else compareStacks (stacks (state one)) (stacks (state theOther)))"

section \<open>Parser output\<close>

text \<open>
  Modelled from the spec: the parser's types (Parser.ts) are not among the sources.
  Section 6 of the specification gives a command a name, an optional object description
  and an optional location; an object description holds form, size and colour filters
  (each possibly absent) or a nested description with a location; a location is a relation
  and the description it relates to. An absent (\<open>null\<close> or \<open>undefined\<close>) field is \<open>None\<close>.
\<close>

datatype Object =
  Object (obj_object: "Object option") (obj_location: "Location option")
    (obj_size: "string option") (obj_color: "string option") (obj_form: "string option")
and Location = Location (loc_relation: string) (loc_entity: Entity)
and Entity = Entity (ent_quantifier: string) (ent_object: Object)

datatype Command =
  Command (cmd_command: string) (cmd_entity: "Entity option") (cmd_location: "Location option")

record ParseResult =
  parse :: Command

record InterpretationResult = ParseResult +
  interpretationOf :: DNFFormula

record PlannerResult = InterpretationResult +
  planOf :: "string list"

datatype ObjectRelations =
  ObjectRelations (targetObject: string) (relationOf: "string option")
    (locationObject: "string option")

section \<open>Interpreter: resolving a command\<close>

definition matchesDescription :: "Object \<Rightarrow> ObjectDefinition \<Rightarrow> bool" where
  "matchesDescription ob d =
     ((obj_form ob = Some (formName (form d)) \<or> obj_form ob = Some ''anyform'') \<and>
      (obj_color ob = Some (color d) \<or> obj_color ob = None) \<and>
      (obj_size ob = Some (sizeName (osize d)) \<or> obj_size ob = None))"

text \<open>
  \<open>getObjectKeys\<close>: reading \<open>form\<close> of an absent description throws; the description
  of the floor gives the key \<open>"floor"\<close>; otherwise the keys of the table, in its order,
  whose entry matches and which are held or in a stack.
\<close>

definition getObjectKeys :: "Object option \<Rightarrow> WorldState \<Rightarrow> error + string list" where
  "getObjectKeys object st =
     (case object of
        None \<Rightarrow> Inl TypeError
      | Some ob \<Rightarrow>
          if obj_form ob = Some ''floor'' then Inr [''floor'']
          else Inr (map fst (filter (\<lambda>(key, d). matchesDescription ob d \<and>
                                        doesObjectExist (holding st) (stacks st) key)
                               (objects st))))"

definition getRequestedObjectRelations :: "Object \<Rightarrow> WorldState \<Rightarrow> error + ObjectRelations list" where
  "getRequestedObjectRelations ob st =
     (case obj_location ob of
        Some loc \<Rightarrow>
          (case getObjectKeys (obj_object ob) st of
             Inl e \<Rightarrow> Inl e
           | Inr targetObjects \<Rightarrow>
               (case getObjectKeys (Some (ent_object (loc_entity loc))) st of
                  Inl e \<Rightarrow> Inl e
                | Inr locationObjects \<Rightarrow>
                    Inr (concat (map (\<lambda>t. map (\<lambda>l. ObjectRelations t (Some (loc_relation loc)) (Some l))
                                            locationObjects) targetObjects))))
      | None \<Rightarrow>
          (case getObjectKeys (Some ob) st of
             Inl e \<Rightarrow> Inl e
           | Inr targetObjects \<Rightarrow>
               Inr (map (\<lambda>t. ObjectRelations t (Some []) None) targetObjects)))"

text \<open>
  The test of one relation in \<open>getObjectRelationsThatExistsInWorld\<close>; its stack loop has
  the body of the goal test's (\<open>relationInStack\<close>) and ends at the first stack found.
\<close>

definition relationExists :: "WorldState \<Rightarrow> ObjectRelations \<Rightarrow> bool" where
  "relationExists st r =
     (if relationOf r = Some ''beside''
      then onKeys (isBeside (stacks st)) (Some (targetObject r)) (locationObject r)
      else if relationOf r = Some ''leftof''
      then onKeys (isLeftOf (stacks st)) (Some (targetObject r)) (locationObject r)
      else if relationOf r = Some ''rightof''
      then onKeys (isRightOf (stacks st)) (Some (targetObject r)) (locationObject r)
      else if relationOf r = Some []
      then doesObjectExist (holding st) (stacks st) (targetObject r)
      else (case relationOf r of
              None \<Rightarrow> False
            | Some rel \<Rightarrow>
                list_ex (\<lambda>stack. relationInStack rel stack (Some (targetObject r)) (locationObject r) st)
                  (stacks st)))"

definition getObjectRelationsThatExistsInWorld ::
  "ObjectRelations list \<Rightarrow> WorldState \<Rightarrow> ObjectRelations list" where
  "getObjectRelationsThatExistsInWorld objectRelations st = filter (relationExists st) objectRelations"

text \<open>
  The body shared by the two loops of \<open>getPossibleMoves\<close> that push literals: for every
  candidate location key that passes \<open>isMoveValid\<close>, one literal; for the implicit
  \<open>"itself"\<close> the held key stands in, and nothing is pushed when \<open>state.holding\<close> is null.
\<close>

definition movesTo :: "string \<Rightarrow> string \<Rightarrow> string list \<Rightarrow> WorldState \<Rightarrow> Literal list" where
  "movesTo objectToMove rel locationKeys st =
     concat (map (\<lambda>k.
        if isMoveValid objectToMove rel k st
        then (if objectToMove = ''itself''
              then (case holding st of
                      None \<Rightarrow> []
                    | Some h \<Rightarrow> [\<lparr>polarity = True, relation = rel, args = [h, k]\<rparr>])
              else [\<lparr>polarity = True, relation = rel, args = [objectToMove, k]\<rparr>])
        else []) locationKeys)"

text \<open>
  The branch of \<open>getPossibleMoves\<close> for the commands move, put and drop. Reading
  \<open>location.entity\<close> of an absent location throws.
\<close>

definition placementMoves :: "string \<Rightarrow> Location option \<Rightarrow> WorldState \<Rightarrow> error + Conjunction" where
  "placementMoves objectToMove location st =
     (case location of
        None \<Rightarrow> Inl TypeError
      | Some loc \<Rightarrow>
          (case obj_location (ent_object (loc_entity loc)) of
             None \<Rightarrow>
               (case getObjectKeys (Some (ent_object (loc_entity loc))) st of
                  Inl e \<Rightarrow> Inl e
                | Inr locationObjectKeys \<Rightarrow>
                    Inr (movesTo objectToMove (loc_relation loc) locationObjectKeys st))
           | Some loc2 \<Rightarrow>
               (case getObjectKeys (obj_object (ent_object (loc_entity loc))) st of
                  Inl e \<Rightarrow> Inl e
                | Inr targetObjects \<Rightarrow>
                    (case getObjectKeys (Some (ent_object (loc_entity loc2))) st of
                       Inl e \<Rightarrow> Inl e
                     | Inr locationObjects \<Rightarrow>
                         Inr (movesTo objectToMove (loc_relation loc)
                                (map targetObject
                                   (getObjectRelationsThatExistsInWorld
                                      (concat (map (\<lambda>t. map (\<lambda>l.
                                          ObjectRelations t (Some (loc_relation loc2)) (Some l))
                                          locationObjects) targetObjects)) st)) st)))))"

definition getPossibleMoves ::
  "string \<Rightarrow> string \<Rightarrow> Location option \<Rightarrow> WorldState \<Rightarrow> error + Conjunction" where
  "getPossibleMoves cmdName objectToMove location st =
     (if objectToMove \<noteq> ''floor'' then
        (if cmdName = ''take'' \<or> cmdName = ''grasp'' \<or> cmdName = ''pick up''
         then Inr [\<lparr>polarity = True, relation = ''holding'', args = [objectToMove]\<rparr>]
         else if cmdName = ''move'' \<or> cmdName = ''put'' \<or> cmdName = ''drop''
         then placementMoves objectToMove location st
         else Inr [])
      else Inr [])"

text \<open>The loop of \<open>interpretCommand\<close> that pushes \<open>[result]\<close> for every result.\<close>

fun movesLoop ::
  "string \<Rightarrow> Location option \<Rightarrow> WorldState \<Rightarrow> ObjectRelations list \<Rightarrow> error + DNFFormula" where
  "movesLoop cmdName location st [] = Inr []"
| "movesLoop cmdName location st (objectRelation # rest) =
     (case getPossibleMoves cmdName (targetObject objectRelation) location st of
        Inl e \<Rightarrow> Inl e
      | Inr results \<Rightarrow>
          (case movesLoop cmdName location st rest of
             Inl e \<Rightarrow> Inl e
           | Inr my_interpretation \<Rightarrow> Inr (map (\<lambda>result. [result]) results @ my_interpretation)))"

definition requestedObjects :: "Command \<Rightarrow> WorldState \<Rightarrow> error + ObjectRelations list" where
  "requestedObjects cmd st =
     (case cmd_entity cmd of
        Some ent \<Rightarrow>
          (case getRequestedObjectRelations (ent_object ent) st of
             Inl e \<Rightarrow> Inl e
           | Inr requestedObjectRelations \<Rightarrow>
               if length (getObjectRelationsThatExistsInWorld requestedObjectRelations st) = 0
               then Inl (Thrown ''No possible objects found'')
               else Inr (getObjectRelationsThatExistsInWorld requestedObjectRelations st))
      | None \<Rightarrow> Inr [ObjectRelations ''itself'' None None])"

definition interpretCommand :: "Command \<Rightarrow> WorldState \<Rightarrow> error + DNFFormula" where
  "interpretCommand cmd st =
     (case requestedObjects cmd st of
        Inl e \<Rightarrow> Inl e
      | Inr objectRelationsThatExistsInWorld \<Rightarrow>
          (case movesLoop (cmd_command cmd) (cmd_location cmd) st objectRelationsThatExistsInWorld of
             Inl e \<Rightarrow> Inl e
           | Inr my_interpretation \<Rightarrow>
               if length my_interpretation = 0
               then Inl (Thrown ''No possible objects to move'')
               else Inr my_interpretation))"

section \<open>The two drivers\<close>

text \<open>
  \<open>Interpreter.interpret\<close> and \<open>Planner.plan\<close> are the same loop around different
  bodies: \<open>forEach\<close> element, \<open>try\<close> the body and push its result, \<open>catch\<close> and push the
  error; then return the results when there are any and \<open>throw errors[0]\<close> otherwise.
  \<open>attempt\<close> is the loop with its two arrays, \<open>finish\<close> the final test; the thrown
  value \<open>errors[0]\<close> is \<open>undefined\<close> (\<open>None\<close>) when no error was pushed.
\<close>

fun attempt :: "('a \<Rightarrow> error + 'b) \<Rightarrow> 'a list \<Rightarrow> error list \<times> 'b list \<Rightarrow> error list \<times> 'b list" where
  "attempt body [] acc = acc"
| "attempt body (x # xs) acc =
     (case body x of
        Inl err \<Rightarrow> attempt body xs (fst acc @ [err], snd acc)
      | Inr r \<Rightarrow> attempt body xs (fst acc, snd acc @ [r]))"

definition finish :: "error list \<times> 'b list \<Rightarrow> error option + 'b list" where
  "finish acc =
     (if length (snd acc) \<noteq> 0 then Inr (snd acc)
      else Inl (case fst acc of [] \<Rightarrow> None | e # es \<Rightarrow> Some e))"

definition interpretBody :: "WorldState \<Rightarrow> ParseResult \<Rightarrow> error + InterpretationResult" where
  "interpretBody currentState parseresult =
     (case interpretCommand (parse parseresult) currentState of
        Inl e \<Rightarrow> Inl e
      | Inr formula \<Rightarrow> Inr \<lparr>parse = parse parseresult, interpretationOf = formula\<rparr>)"

text \<open>\<open>Interpreter.interpret\<close> (the name alone is reserved in Isabelle).\<close>

definition interpretParses :: "ParseResult list \<Rightarrow> WorldState \<Rightarrow> error option + InterpretationResult list" where
  "interpretParses parses currentState = finish (attempt (interpretBody currentState) parses ([], []))"

text \<open>
  \<open>planInterpretation\<close>. The search itself (\<open>aStarSearch\<close>, Graph.ts) is not among the
  sources: the outcome of the call \<open>aStarSearch(graph, startNode, isGoal, heuristic, 500)\<close>
  is the parameter \<open>search\<close>, a function of the formula and the start state from which the
  closures \<open>isGoal\<close> and \<open>heuristic\<close> are built: \<open>Inl\<close> when it throws, \<open>Inr None\<close>
  for \<open>null\<close>, \<open>Inr (Some path)\<close> for a result with that path. The plan is read off the
  path by comparing each next node with the targets of the outgoing edges.
\<close>

fun matchingCommands :: "SNode \<Rightarrow> EdgeWithCommand list \<Rightarrow> error + string list" where
  "matchingCommands pathNode [] = Inr []"
| "matchingCommands pathNode (e # es) =
     (case compareNodes pathNode (to_node e) of
        Inl err \<Rightarrow> Inl err
      | Inr c \<Rightarrow>
          (case matchingCommands pathNode es of
             Inl err \<Rightarrow> Inl err
           | Inr cs \<Rightarrow> Inr (if c = 0 then command e # cs else cs)))"

fun pathCommands :: "SNode list \<Rightarrow> error + string list" where
  "pathCommands (a # b # rest) =
     (case outgoingEdges a of
        Inl err \<Rightarrow> Inl err
      | Inr edges \<Rightarrow>
          (case matchingCommands b edges of
             Inl err \<Rightarrow> Inl err
           | Inr cs \<Rightarrow>
               (case pathCommands (b # rest) of
                  Inl err \<Rightarrow> Inl err
                | Inr cs' \<Rightarrow> Inr (cs @ cs'))))"
| "pathCommands path = Inr []"

definition planInterpretation ::
  "(DNFFormula \<Rightarrow> WorldState \<Rightarrow> error + SNode list option) \<Rightarrow> DNFFormula \<Rightarrow> WorldState
   \<Rightarrow> error + string list option" where
  "planInterpretation search formula st =
     (case search formula st of
        Inl err \<Rightarrow> Inl err
      | Inr None \<Rightarrow> Inr None
      | Inr (Some path) \<Rightarrow>
          (case pathCommands (SNode st # path) of
             Inl err \<Rightarrow> Inl err
           | Inr p \<Rightarrow> Inr (Some p)))"

text \<open>
  The body of the loop of \<open>plan\<close>: a \<open>null\<close> plan makes \<open>result.plan.length\<close> throw,
  an empty plan is replaced by the notice.
\<close>

definition planBody ::
  "(DNFFormula \<Rightarrow> WorldState \<Rightarrow> error + SNode list option) \<Rightarrow> WorldState
   \<Rightarrow> InterpretationResult \<Rightarrow> error + PlannerResult" where
  "planBody search currentState interp =
     (case planInterpretation search (interpretationOf interp) currentState of
        Inl err \<Rightarrow> Inl err
      | Inr None \<Rightarrow> Inl TypeError
      | Inr (Some p) \<Rightarrow>
          Inr \<lparr>parse = parse interp, interpretationOf = interpretationOf interp,
               planOf = (if length p = 0 then [''That is already true!''] else p)\<rparr>)"

definition plan ::
  "(DNFFormula \<Rightarrow> WorldState \<Rightarrow> error + SNode list option) \<Rightarrow> InterpretationResult list
   \<Rightarrow> WorldState \<Rightarrow> error option + PlannerResult list" where
  "plan search interpretations currentState =
     finish (attempt (planBody search currentState) interpretations ([], []))"

text \<open>
  What the drivers are compared with: the results of the elements whose body returns, and
  the errors of the elements whose body throws, each in the order of the input.
\<close>

definition successesOf :: "('a \<Rightarrow> error + 'b) \<Rightarrow> 'a list \<Rightarrow> 'b list" where
  "successesOf body xs = concat (map (\<lambda>x. case body x of Inl e \<Rightarrow> [] | Inr r \<Rightarrow> [r]) xs)"

definition failuresOf :: "('a \<Rightarrow> error + 'b) \<Rightarrow> 'a list \<Rightarrow> error list" where
  "failuresOf body xs = concat (map (\<lambda>x. case body x of Inl e \<Rightarrow> [e] | Inr r \<Rightarrow> []) xs)"

section \<open>The placement invariant\<close>

text \<open>
  How often a key is placed in a state: once if it is the held key, plus the number of its
  occurrences in the stacks. A state places each key of a list exactly once when every
  count is 1 (held and in no stack, or in one stack once and not held).
\<close>

definition occurrences :: "WorldState \<Rightarrow> string \<Rightarrow> nat" where
  "occurrences st k =
     (if holding st = Some k then 1 else 0) + count_list (concat (stacks st)) k"

definition placedOnce :: "string list \<Rightarrow> WorldState \<Rightarrow> bool" where
  "placedOnce keys st = list_all (\<lambda>k. occurrences st k = 1) keys"

text \<open>The states the search can produce: the start state, and every target of an
  outgoing edge of a state it can produce.\<close>

inductive reachable :: "WorldState \<Rightarrow> WorldState \<Rightarrow> bool" for start :: WorldState where
  reachable_start: "reachable start start"
| reachable_edge: "reachable start st \<Longrightarrow> outgoingEdges (SNode st) = Inr edges \<Longrightarrow>
     e \<in> set edges \<Longrightarrow> reachable start (state (to_node e))"

code_pred reachable .

section \<open>Example worlds\<close>

text \<open>
  A small world used to evaluate the definitions: a large green brick \<open>a\<close>, a small white
  ball \<open>b\<close>, a large red box \<open>k\<close> and a small blue box \<open>m\<close>, in three columns.
\<close>

definition exampleObjects :: "(string \<times> ObjectDefinition) list" where
  "exampleObjects =
     [(''a'', \<lparr>form = FBrick, osize = Large, color = ''green''\<rparr>),
      (''b'', \<lparr>form = FBall, osize = Small, color = ''white''\<rparr>),
      (''k'', \<lparr>form = FBox, osize = Large, color = ''red''\<rparr>),
      (''m'', \<lparr>form = FBox, osize = Small, color = ''blue''\<rparr>)]"

definition exampleWorld :: WorldState where
  "exampleWorld =
     \<lparr>stacks = [[''a''], [''k'', ''b''], [''m'']], holding = None, arm = 0,
      objects = exampleObjects, examples = []\<rparr>"

text \<open>The same objects after the arm has picked up \<open>b\<close> and moved to the last column.\<close>

definition exampleWorldHolding :: WorldState where
  "exampleWorldHolding =
     \<lparr>stacks = [[''a''], [''k''], [''m'']], holding = Some ''b'', arm = 2,
      objects = exampleObjects, examples = []\<rparr>"

text \<open>Commands: "take the ball", "take the table", "put it in a box", and a bare "put".\<close>

definition takeTheBall :: Command where
  "takeTheBall =
     Command ''take'' (Some (Entity ''the'' (Object None None None None (Some ''ball'')))) None"

definition takeTheTable :: Command where
  "takeTheTable =
     Command ''take'' (Some (Entity ''the'' (Object None None None None (Some ''table'')))) None"

definition putInABox :: Command where
  "putInABox =
     Command ''put'' None
       (Some (Location ''inside'' (Entity ''any'' (Object None None None None (Some ''box'')))))"

definition putNowhere :: Command where
  "putNowhere = Command ''put'' None None"

text \<open>
  A stand-in for the search that never moves: it throws on an empty formula, returns the
  empty path when the start state passes the goal test, and \<open>null\<close> otherwise.
\<close>

definition exampleSearch :: "DNFFormula \<Rightarrow> WorldState \<Rightarrow> error + SNode list option" where
  "exampleSearch formula st =
     (if formula = [] then Inl (Thrown ''nothing to search for'')
      else (case isGoal formula (SNode st) of
              Inl e \<Rightarrow> Inl e
            | Inr found \<Rightarrow> if found then Inr (Some []) else Inr None))"

definition holdingB :: InterpretationResult where
  "holdingB = \<lparr>parse = takeTheBall,
               interpretationOf = [[\<lparr>polarity = True, relation = ''holding'', args = [''b'']\<rparr>]]\<rparr>"

definition insideBK :: InterpretationResult where
  "insideBK = \<lparr>parse = putInABox,
               interpretationOf = [[\<lparr>polarity = True, relation = ''inside'', args = [''b'', ''k'']\<rparr>]]\<rparr>"

definition noGoal :: InterpretationResult where
  "noGoal = \<lparr>parse = putNowhere, interpretationOf = []\<rparr>"

text \<open>The example world after \<open>pick\<close> in column 0, and the example world without \<open>b\<close>.\<close>

definition exampleWorldPicked :: WorldState where
  "exampleWorldPicked =
     \<lparr>stacks = [[], [''k'', ''b''], [''m'']], holding = Some ''a'', arm = 0,
      objects = exampleObjects, examples = []\<rparr>"

definition exampleWorldWithoutB :: WorldState where
  "exampleWorldWithoutB =
     \<lparr>stacks = [[''a''], [''k''], [''m'']], holding = None, arm = 0,
      objects = exampleObjects, examples = []\<rparr>"

text \<open>
  Worlds with an object whose key is the empty string (a large red brick), next to a large
  blue box \<open>a\<close>: the brick held, the brick gone after a pick, and the brick on a column.
\<close>

definition emptyKeyObjects :: "(string \<times> ObjectDefinition) list" where
  "emptyKeyObjects =
     [([], \<lparr>form = FBrick, osize = Large, color = ''red''\<rparr>),
      (''a'', \<lparr>form = FBox, osize = Large, color = ''blue''\<rparr>)]"

definition emptyKeyWorld :: WorldState where
  "emptyKeyWorld =
     \<lparr>stacks = [[''a'']], holding = Some [], arm = 0, objects = emptyKeyObjects, examples = []\<rparr>"

definition emptyKeyWorldPicked :: WorldState where
  "emptyKeyWorldPicked =
     \<lparr>stacks = [[]], holding = Some ''a'', arm = 0, objects = emptyKeyObjects, examples = []\<rparr>"

definition emptyKeyOnTop :: WorldState where
  "emptyKeyOnTop =
     \<lparr>stacks = [[[]]], holding = Some ''a'', arm = 0, objects = emptyKeyObjects, examples = []\<rparr>"

definition emptyKeyDropped :: WorldState where
  "emptyKeyDropped =
     \<lparr>stacks = [[[], ''a'']], holding = None, arm = 0, objects = emptyKeyObjects, examples = []\<rparr>"

text \<open>A goal of one conjunction with two literals: \<open>holding(b) & ontop(a,k)\<close>.\<close>

definition heldAndOnBox :: DNFFormula where
  "heldAndOnBox =
     [[\<lparr>polarity = True, relation = ''holding'', args = [''b'']\<rparr>,
       \<lparr>polarity = True, relation = ''ontop'', args = [''a'', ''k'']\<rparr>]]"

section \<open>Properties\<close>

text \<open>
  C6. For every key \<open>x\<close> and every relation \<open>r\<close>, \<open>isMoveValid(x, r, x)\<close> is false:
  whichever branch of the rule chain the form and size of \<open>x\<close> select, the answer is
  "invalid". In the second branch \<open>x\<close> is a box, its size is large or small, and the nested
  test returns false.
\<close>

theorem isMoveValid_self: "isMoveValid x r x st = False"
proof (cases "getObjectSize x st")
  case None
  then have "getObjectForm x st = Some FFloor \<or> getObjectForm x st = None"
    by (auto simp: getObjectSize_def getObjectForm_def)
  then show ?thesis
    by (auto simp: isMoveValid_def)
next
  case (Some sz)
  then show ?thesis
    by (cases sz) (simp_all add: isMoveValid_def)
qed

text \<open>
  C9. \<open>isMoveValid\<close> reads the state only through its object table: two states with the
  same table give the same answer for the same keys and relation, whatever their stacks,
  arm position and held object are.
\<close>

theorem isMoveValid_objects_only:
  assumes "objects s1 = objects s2"
  shows "isMoveValid a r b s1 = isMoveValid a r b s2"
proof -
  have sz: "getObjectSize k s1 = getObjectSize k s2" for k
    using assms by (simp only: getObjectSize_def)
  have fm: "getObjectForm k s1 = getObjectForm k s2" for k
    using assms by (simp only: getObjectForm_def)
  show ?thesis
    unfolding isMoveValid_def by (simp only: sz fm)
qed

theorem isMoveValid_objects_only_witness:
  "objects exampleWorld = objects exampleWorldHolding \<and>
   stacks exampleWorld \<noteq> stacks exampleWorldHolding \<and>
   isMoveValid ''b'' ''inside'' ''k'' exampleWorld =
     isMoveValid ''b'' ''inside'' ''k'' exampleWorldHolding"
  using isMoveValid_objects_only [of exampleWorld exampleWorldHolding "''b''" "''inside''" "''k''"]
  by (simp add: exampleWorld_def exampleWorldHolding_def)

subsection \<open>isOnTop\<close>

lemma ex_nat_split: "(\<exists>i. P i) = (P 0 \<or> (\<exists>j. P (Suc j)))"
  by (metis not0_implies_Suc)

lemma isOnTopLoop_found:
  "isOnTopLoop stack a b k True = (stack \<noteq> [] \<and> stack ! 0 = a)"
  by (cases stack) auto

lemma isOnTopLoop_char:
  "isOnTopLoop stack a b k False =
     ((\<exists>i. Suc i < length stack \<and> stack ! i = b \<and> b \<notin> set (take i stack) \<and> stack ! Suc i = a)
      \<or> (k = 0 \<and> b = ''floor'' \<and> stack \<noteq> [] \<and> stack ! 0 = a))"
proof (induction stack arbitrary: k)
  case Nil
  then show ?case by simp
next
  case (Cons obj rest)
  let ?P = "\<lambda>i. Suc i < length (obj # rest) \<and> (obj # rest) ! i = b \<and>
                b \<notin> set (take i (obj # rest)) \<and> (obj # rest) ! Suc i = a"
  have split: "(\<exists>i. ?P i) = (?P 0 \<or> (\<exists>j. ?P (Suc j)))"
    by (rule ex_nat_split)
  have p0: "?P 0 = (obj = b \<and> rest \<noteq> [] \<and> rest ! 0 = a)"
    by auto
  have pS: "(\<exists>j. ?P (Suc j)) =
            (obj \<noteq> b \<and> (\<exists>i. Suc i < length rest \<and> rest ! i = b \<and>
                                b \<notin> set (take i rest) \<and> rest ! Suc i = a))"
    by auto
  show ?case
  proof (cases "obj = b")
    case True
    then show ?thesis
      unfolding split p0 pS by (auto simp: isOnTopLoop_found)
  next
    case False
    then show ?thesis
      unfolding split p0 pS using Cons.IH [of "Suc k"] by auto
  qed
qed

text \<open>
  C3, as the code has it. \<open>isOnTop(stack, upper, lower)\<close> is true exactly when the form of
  \<open>upper\<close> is not floor and either \<open>upper\<close> is the element right after the first
  occurrence of \<open>lower\<close> in the stack (bottom to top), or \<open>lower\<close> is \<open>"floor"\<close> and
  \<open>upper\<close> is at index 0. The form of \<open>lower\<close> is not read: a box is no exception.
\<close>

theorem isOnTop_char:
  "isOnTop stack upper lower st =
     (getObjectForm upper st \<noteq> Some FFloor \<and>
      ((\<exists>i. Suc i < length stack \<and> stack ! i = lower \<and> lower \<notin> set (take i stack) \<and>
            stack ! Suc i = upper)
       \<or> (lower = ''floor'' \<and> stack \<noteq> [] \<and> stack ! 0 = upper)))"
  by (simp add: isOnTop_def isOnTopLoop_char)

text \<open>
  C3 as stated fails: in the example world the ball \<open>b\<close> lies directly on the box \<open>k\<close>,
  and \<open>isOnTop\<close> holds of them.
\<close>

theorem isOnTop_box_counterexample:
  "getObjectForm ''k'' exampleWorld = Some FBox \<and>
   isOnTop [''k'', ''b''] ''b'' ''k'' exampleWorld"
  by (simp add: isOnTop_def getObjectForm_def exampleWorld_def exampleObjects_def)

subsection \<open>isBeside\<close>

lemma scanStack_fst:
  "fst (scanStack stack f s n nrs) = fst nrs \<or>
   (fst (scanStack stack f s n nrs) = n \<and> f \<in> set stack)"
  by (induction stack) auto

lemma scanStack_snd:
  "snd (scanStack stack f s n nrs) = snd nrs \<or>
   (snd (scanStack stack f s n nrs) = n \<and> s \<in> set stack)"
  by (induction stack) auto

lemma scanStacks_fst:
  "fst (scanStacks stks f s n nrs) = fst nrs \<or>
   (\<exists>k < length stks. fst (scanStacks stks f s n nrs) = n + int k \<and> f \<in> set (stks ! k))"
proof (induction stks arbitrary: n nrs)
  case Nil
  then show ?case by simp
next
  case (Cons stack rest)
  let ?nrs = "scanStack stack f s n nrs"
  from Cons.IH [of "n + 1" ?nrs]
  consider (keep) "fst (scanStacks rest f s (n + 1) ?nrs) = fst ?nrs"
    | (later) k where "k < length rest" "fst (scanStacks rest f s (n + 1) ?nrs) = n + 1 + int k"
        "f \<in> set (rest ! k)"
    by blast
  then show ?case
  proof cases
    case keep
    with scanStack_fst [of stack f s n nrs] show ?thesis
      by (auto intro: exI [of _ 0])
  next
    case later
    then show ?thesis
      by (auto intro!: exI [of _ "Suc k"])
  qed
qed

lemma scanStacks_snd:
  "snd (scanStacks stks f s n nrs) = snd nrs \<or>
   (\<exists>k < length stks. snd (scanStacks stks f s n nrs) = n + int k \<and> s \<in> set (stks ! k))"
proof (induction stks arbitrary: n nrs)
  case Nil
  then show ?case by simp
next
  case (Cons stack rest)
  let ?nrs = "scanStack stack f s n nrs"
  from Cons.IH [of "n + 1" ?nrs]
  consider (keep) "snd (scanStacks rest f s (n + 1) ?nrs) = snd ?nrs"
    | (later) k where "k < length rest" "snd (scanStacks rest f s (n + 1) ?nrs) = n + 1 + int k"
        "s \<in> set (rest ! k)"
    by blast
  then show ?case
  proof cases
    case keep
    with scanStack_snd [of stack f s n nrs] show ?thesis
      by (auto intro: exI [of _ 0])
  next
    case later
    then show ?thesis
      by (auto intro!: exI [of _ "Suc k"])
  qed
qed

lemma in_some_stack: "k < length xss \<Longrightarrow> x \<in> set (xss ! k) \<Longrightarrow> x \<in> \<Union> (set ` set xss)"
  using nth_mem by fastforce

lemma distinct_concat_same_index:
  "distinct (concat xss) \<Longrightarrow> i < length xss \<Longrightarrow> j < length xss \<Longrightarrow>
   x \<in> set (xss ! i) \<Longrightarrow> x \<in> set (xss ! j) \<Longrightarrow> i = j"
proof (induction xss arbitrary: i j)
  case Nil
  then show ?case by simp
next
  case (Cons xs xss)
  show ?case
  proof (cases i)
    case 0
    then show ?thesis
      using Cons.prems by (cases j) (auto dest: in_some_stack)
  next
    case (Suc i')
    then show ?thesis
      using Cons.prems Cons.IH by (cases j) (auto dest: in_some_stack)
  qed
qed

lemma isBeside_absent_first:
  assumes "a \<notin> set (concat stks)"
  shows "\<not> isBeside stks a b"
proof -
  obtain x y where xy: "scanStacks stks a b 0 (-10, -10) = (x, y)"
    by (cases "scanStacks stks a b 0 (-10, -10)")
  have "x = -10"
    using scanStacks_fst [of stks a b 0 "(-10, -10)"] assms xy
    by (auto dest: nth_mem)
  moreover have "y = -10 \<or> 0 \<le> y"
    using scanStacks_snd [of stks a b 0 "(-10, -10)"] xy by auto
  ultimately show ?thesis
    by (auto simp: isBeside_def xy)
qed

lemma isBeside_absent_second:
  assumes "b \<notin> set (concat stks)"
  shows "\<not> isBeside stks a b"
proof -
  obtain x y where xy: "scanStacks stks a b 0 (-10, -10) = (x, y)"
    by (cases "scanStacks stks a b 0 (-10, -10)")
  have "y = -10"
    using scanStacks_snd [of stks a b 0 "(-10, -10)"] assms xy
    by (auto dest: nth_mem)
  moreover have "x = -10 \<or> 0 \<le> x"
    using scanStacks_fst [of stks a b 0 "(-10, -10)"] xy by auto
  ultimately show ?thesis
    by (auto simp: isBeside_def xy)
qed

lemma isBeside_same_stack:
  assumes d: "distinct (concat stks)"
    and i: "i < length stks" and a: "a \<in> set (stks ! i)" and b: "b \<in> set (stks ! i)"
  shows "\<not> isBeside stks a b"
proof -
  obtain x y where xy: "scanStacks stks a b 0 (-10, -10) = (x, y)"
    by (cases "scanStacks stks a b 0 (-10, -10)")
  have x: "x = -10 \<or> x = int i"
    using scanStacks_fst [of stks a b 0 "(-10, -10)"] xy
      distinct_concat_same_index [OF d _ i _ a]
    by auto
  have y: "y = -10 \<or> y = int i"
    using scanStacks_snd [of stks a b 0 "(-10, -10)"] xy
      distinct_concat_same_index [OF d _ i _ b]
    by auto
  from x y show ?thesis
    by (auto simp: isBeside_def xy)
qed

text \<open>
  C10, as the code has it. \<open>isBeside(stacks, a, b)\<close> is false whenever one of the keys is
  in no stack (held by the arm, or not in the world); and, when no key occurs twice in the
  stacks, also whenever \<open>a\<close> and \<open>b\<close> are in the same stack.
\<close>

theorem isBeside_false:
  "(a \<notin> set (concat stks) \<or> b \<notin> set (concat stks) \<longrightarrow> \<not> isBeside stks a b) \<and>
   (distinct (concat stks) \<and> (\<exists>stack \<in> set stks. a \<in> set stack \<and> b \<in> set stack)
      \<longrightarrow> \<not> isBeside stks a b)"
  using isBeside_absent_first isBeside_absent_second isBeside_same_stack
  by (metis in_set_conv_nth)

theorem isBeside_false_witness:
  "''b'' \<notin> set (concat (stacks exampleWorldHolding)) \<and>
   \<not> isBeside (stacks exampleWorldHolding) ''b'' ''k'' \<and>
   distinct (concat (stacks exampleWorld)) \<and>
   (\<exists>stack \<in> set (stacks exampleWorld). ''k'' \<in> set stack \<and> ''b'' \<in> set stack) \<and>
   \<not> isBeside (stacks exampleWorld) ''k'' ''b''"
  using isBeside_false [of "''b''" "stacks exampleWorldHolding" "''k''"]
    isBeside_false [of "''k''" "stacks exampleWorld" "''b''"]
  by (simp add: exampleWorld_def exampleWorldHolding_def)

text \<open>
  C10 as stated fails on stacks that hold a key twice: \<open>a\<close> and \<open>b\<close> share the first
  stack, the second occurrence of \<open>b\<close> is recorded in the next one, and the distance is 1.
\<close>

theorem isBeside_same_stack_counterexample:
  "(\<exists>stack \<in> set [[''a'', ''b''], [''b'']]. ''a'' \<in> set stack \<and> ''b'' \<in> set stack) \<and>
   isBeside [[''a'', ''b''], [''b'']] ''a'' ''b''"
  by (simp add: isBeside_def)

subsection \<open>The drivers\<close>

lemma attempt_acc:
  "attempt body xs acc = (fst acc @ failuresOf body xs, snd acc @ successesOf body xs)"
  by (induction xs arbitrary: acc) (auto simp: successesOf_def failuresOf_def split: sum.splits)

lemma finish_attempt:
  "finish (attempt body xs ([], [])) =
     (if successesOf body xs \<noteq> [] then Inr (successesOf body xs)
      else Inl (case failuresOf body xs of [] \<Rightarrow> None | e # es \<Rightarrow> Some e))"
  by (simp add: attempt_acc finish_def)

text \<open>
  No result means that every element failed, and then the recorded errors are the errors
  of the elements, one each, in order: \<open>errors[0]\<close> is the error of the first element.
\<close>

lemma successesOf_empty_iff:
  "(successesOf body xs = []) = (\<forall>x \<in> set xs. \<exists>e. body x = Inl e)"
  by (induction xs) (auto simp: successesOf_def split: sum.splits)

lemma failuresOf_all_failed:
  "successesOf body xs = [] \<Longrightarrow> map Inl (failuresOf body xs) = map body xs"
  by (induction xs) (auto simp: successesOf_def failuresOf_def split: sum.splits)

text \<open>
  C7. \<open>plan\<close>, and likewise \<open>interpret\<close>, runs its body on every element on its own:
  when at least one element succeeds the result is the list of all successful results, in
  order, and no error surfaces; only when none succeeds is something thrown, and it is
  \<open>errors[0]\<close>, the error of the first element (the later ones are dropped; for an empty
  input nothing was recorded and the thrown value is \<open>undefined\<close>).
\<close>

theorem drivers_collect:
  "plan search interpretations st =
     (if successesOf (planBody search st) interpretations \<noteq> []
      then Inr (successesOf (planBody search st) interpretations)
      else Inl (case failuresOf (planBody search st) interpretations of
                  [] \<Rightarrow> None | e # es \<Rightarrow> Some e)) \<and>
   interpretParses parses st =
     (if successesOf (interpretBody st) parses \<noteq> []
      then Inr (successesOf (interpretBody st) parses)
      else Inl (case failuresOf (interpretBody st) parses of
                  [] \<Rightarrow> None | e # es \<Rightarrow> Some e))"
  unfolding plan_def interpretParses_def finish_attempt by simp

theorem drivers_collect_witness:
  "plan exampleSearch [holdingB, insideBK, noGoal] exampleWorld =
     Inr [\<lparr>parse = putInABox,
           interpretationOf = [[\<lparr>polarity = True, relation = ''inside'', args = [''b'', ''k'']\<rparr>]],
           planOf = [''That is already true!'']\<rparr>] \<and>
   plan exampleSearch [holdingB, noGoal] exampleWorld = Inl (Some TypeError) \<and>
   interpretParses [\<lparr>parse = takeTheTable\<rparr>, \<lparr>parse = takeTheBall\<rparr>, \<lparr>parse = putNowhere\<rparr>]
       exampleWorld =
     Inr [\<lparr>parse = takeTheBall,
           interpretationOf = [[\<lparr>polarity = True, relation = ''holding'', args = [''b'']\<rparr>]]\<rparr>] \<and>
   interpretParses [\<lparr>parse = takeTheTable\<rparr>, \<lparr>parse = putNowhere\<rparr>] exampleWorldHolding =
     Inl (Some (Thrown ''No possible objects found''))"
proof -
  have p1: "successesOf (planBody exampleSearch exampleWorld) [holdingB, insideBK, noGoal] =
      [\<lparr>parse = putInABox,
        interpretationOf = [[\<lparr>polarity = True, relation = ''inside'', args = [''b'', ''k'']\<rparr>]],
        planOf = [''That is already true!'']\<rparr>]"
    by code_simp
  have p2: "successesOf (planBody exampleSearch exampleWorld) [holdingB, noGoal] = []"
    by code_simp
  have p3: "failuresOf (planBody exampleSearch exampleWorld) [holdingB, noGoal] =
      [TypeError, Thrown ''nothing to search for'']"
    by code_simp
  have i1: "successesOf (interpretBody exampleWorld)
        [\<lparr>parse = takeTheTable\<rparr>, \<lparr>parse = takeTheBall\<rparr>, \<lparr>parse = putNowhere\<rparr>] =
      [\<lparr>parse = takeTheBall,
        interpretationOf = [[\<lparr>polarity = True, relation = ''holding'', args = [''b'']\<rparr>]]\<rparr>]"
    by code_simp
  have i2: "successesOf (interpretBody exampleWorldHolding)
        [\<lparr>parse = takeTheTable\<rparr>, \<lparr>parse = putNowhere\<rparr>] = []"
    by code_simp
  have i3: "failuresOf (interpretBody exampleWorldHolding)
        [\<lparr>parse = takeTheTable\<rparr>, \<lparr>parse = putNowhere\<rparr>] =
      [Thrown ''No possible objects found'', TypeError]"
    by code_simp
  show ?thesis
    using drivers_collect [of exampleSearch "[holdingB, insideBK, noGoal]" exampleWorld
        "[\<lparr>parse = takeTheTable\<rparr>, \<lparr>parse = takeTheBall\<rparr>, \<lparr>parse = putNowhere\<rparr>]"]
      drivers_collect [of exampleSearch "[holdingB, noGoal]" exampleWorld "[]"]
      drivers_collect [of exampleSearch "[]" exampleWorldHolding
        "[\<lparr>parse = takeTheTable\<rparr>, \<lparr>parse = putNowhere\<rparr>]"]
    by (simp only: p1 p2 p3 i1 i2 i3 list.simps if_True if_False simp_thms)
qed

subsection \<open>interpretCommand\<close>

lemma movesTo_polarity: "lit \<in> set (movesTo objectToMove rel ks st) \<Longrightarrow> polarity lit"
  by (auto simp: movesTo_def split: if_splits option.splits)

lemma placementMoves_polarity:
  "placementMoves obj loc st = Inr results \<Longrightarrow> lit \<in> set results \<Longrightarrow> polarity lit"
  unfolding placementMoves_def
  by (auto split: option.splits sum.splits dest: movesTo_polarity)

lemma getPossibleMoves_polarity:
  assumes "getPossibleMoves c obj loc st = Inr results" and "lit \<in> set results"
  shows "polarity lit"
proof -
  from assms(1) consider
      (none) "results = []"
    | (take) "results = [\<lparr>polarity = True, relation = ''holding'', args = [obj]\<rparr>]"
    | (place) "placementMoves obj loc st = Inr results"
    unfolding getPossibleMoves_def by (metis Inr_inject)
  then show ?thesis
  proof cases
    case none
    with assms(2) show ?thesis by simp
  next
    case take
    with assms(2) show ?thesis by simp
  next
    case place
    then show ?thesis using assms(2) by (rule placementMoves_polarity)
  qed
qed

lemma movesLoop_single:
  "movesLoop c loc st rels = Inr formula \<Longrightarrow> cj \<in> set formula \<Longrightarrow>
   \<exists>lit. cj = [lit] \<and> polarity lit"
proof (induction rels arbitrary: formula)
  case Nil
  then show ?case by simp
next
  case (Cons r rest)
  from Cons.prems(1) obtain results more where
    g: "getPossibleMoves c (targetObject r) loc st = Inr results" and
    m: "movesLoop c loc st rest = Inr more" and
    f: "formula = map (\<lambda>result. [result]) results @ more"
    by (auto split: sum.splits)
  from Cons.prems(2) f consider (here) lit where "lit \<in> set results" "cj = [lit]"
    | (later) "cj \<in> set more"
    by auto
  then show ?case
  proof cases
    case here
    with getPossibleMoves_polarity [OF g] show ?thesis by blast
  next
    case later
    with Cons.IH [OF m] show ?thesis by blast
  qed
qed

text \<open>
  C8. Every formula that \<open>interpretCommand\<close> returns consists of conjunctions of exactly
  one literal, and every literal in it has polarity true.
\<close>

theorem interpretCommand_single_positive:
  assumes "interpretCommand cmd st = Inr formula"
  shows "list_all (\<lambda>cj. length cj = 1 \<and> list_all polarity cj) formula"
proof -
  from assms obtain rels where
    "movesLoop (cmd_command cmd) (cmd_location cmd) st rels = Inr formula"
    by (auto simp: interpretCommand_def split: sum.splits if_splits)
  then have "\<exists>lit. cj = [lit] \<and> polarity lit" if "cj \<in> set formula" for cj
    using that by (rule movesLoop_single)
  then show ?thesis
    by (fastforce simp: list_all_iff)
qed

theorem interpretCommand_single_positive_witness:
  "interpretCommand putInABox exampleWorldHolding =
     Inr [[\<lparr>polarity = True, relation = ''inside'', args = [''b'', ''k'']\<rparr>],
          [\<lparr>polarity = True, relation = ''inside'', args = [''b'', ''m'']\<rparr>]] \<and>
   list_all (\<lambda>cj. length cj = 1 \<and> list_all polarity cj)
     [[\<lparr>polarity = True, relation = ''inside'', args = [''b'', ''k'']\<rparr>],
      [\<lparr>polarity = True, relation = ''inside'', args = [''b'', ''m'']\<rparr>]]"
proof -
  have e: "interpretCommand putInABox exampleWorldHolding =
     Inr [[\<lparr>polarity = True, relation = ''inside'', args = [''b'', ''k'']\<rparr>],
          [\<lparr>polarity = True, relation = ''inside'', args = [''b'', ''m'']\<rparr>]]"
    by code_simp
  from e interpretCommand_single_positive [OF e] show ?thesis
    by (rule conjI)
qed

subsection \<open>The placement invariant\<close>

lemma count_concat_update:
  assumes "i < length xss"
  shows "count_list (concat (xss[i := ys])) k + count_list (xss ! i) k =
         count_list (concat xss) k + count_list ys k"
proof -
  have a: "xss = take i xss @ [xss ! i] @ drop (Suc i) xss"
    using assms by (simp add: id_take_nth_drop)
  have b: "xss[i := ys] = take i xss @ [ys] @ drop (Suc i) xss"
    using assms by (simp add: upd_conv_take_nth_drop)
  have "count_list (concat xss) k =
        count_list (concat (take i xss)) k + count_list (xss ! i) k +
        count_list (concat (drop (Suc i) xss)) k"
    by (subst a) simp
  moreover have "count_list (concat (xss[i := ys])) k =
        count_list (concat (take i xss)) k + count_list ys k +
        count_list (concat (drop (Suc i) xss)) k"
    by (subst b) simp
  ultimately show ?thesis by simp
qed

lemma count_butlast:
  "col \<noteq> [] \<Longrightarrow> count_list (butlast col) k + (if last col = k then 1 else 0) = count_list col k"
  by (induction col) auto

lemma currentColumn_Some:
  "currentColumn st = Some col \<Longrightarrow>
   nat (arm st) < length (stacks st) \<and> stacks st ! nat (arm st) = col"
  by (auto simp: currentColumn_def split: if_splits)

lemma leftEdges_occurrences:
  "e \<in> set (leftEdges (SNode st)) \<Longrightarrow> occurrences (state (to_node e)) k = occurrences st k"
  by (auto simp: leftEdges_def mkEdge_def occurrences_def split: if_splits)

lemma rightEdges_occurrences:
  "e \<in> set (rightEdges (SNode st)) \<Longrightarrow> occurrences (state (to_node e)) k = occurrences st k"
  by (auto simp: rightEdges_def mkEdge_def occurrences_def split: if_splits)

lemma dropEdges_occurrences:
  assumes "currentColumn st = Some col" and "e \<in> set (dropEdges (SNode st) col)"
  shows "occurrences (state (to_node e)) k = occurrences st k"
proof -
  from assms(2) obtain h where h: "holding st = Some h"
    and e: "e = mkEdge (SNode st)
                  \<lparr>stacks = (stacks st)[nat (arm st) := col @ [h]],
                   holding = None, arm = arm st, objects = objects st,
                   examples = examples st\<rparr> ''d''"
    by (cases "holding st") (auto simp: dropEdges_def split: if_splits)
  from currentColumn_Some [OF assms(1)]
  have "count_list (concat ((stacks st)[nat (arm st) := col @ [h]])) k + count_list col k =
        count_list (concat (stacks st)) k + count_list (col @ [h]) k"
    using count_concat_update [of "nat (arm st)" "stacks st" "col @ [h]" k] by simp
  then show ?thesis
    by (simp add: e h mkEdge_def occurrences_def)
qed

lemma pickEdges_occurrences:
  assumes "currentColumn st = Some col" and "e \<in> set (pickEdges (SNode st) col)" and "k \<noteq> []"
  shows "occurrences (state (to_node e)) k = occurrences st k"
proof -
  from assms(2) have nt: "\<not> truthy (holding st)" and ne: "col \<noteq> []"
    and e: "e = mkEdge (SNode st)
                  \<lparr>stacks = (stacks st)[nat (arm st) := butlast col],
                   holding = Some (last col), arm = arm st, objects = objects st,
                   examples = examples st\<rparr> ''p''"
    by (auto simp: pickEdges_def split: if_splits)
  from nt assms(3) have nh: "holding st \<noteq> Some k"
    by (cases "holding st") auto
  from currentColumn_Some [OF assms(1)]
  have "count_list (concat ((stacks st)[nat (arm st) := butlast col])) k + count_list col k =
        count_list (concat (stacks st)) k + count_list (butlast col) k"
    using count_concat_update [of "nat (arm st)" "stacks st" "butlast col" k] by simp
  with count_butlast [OF ne, of k] nh show ?thesis
    by (simp add: e mkEdge_def occurrences_def split: if_splits)
qed

text \<open>Every transition keeps the number of places of every key but the empty string.\<close>

lemma outgoingEdges_occurrences:
  assumes "outgoingEdges (SNode st) = Inr edges" and "e \<in> set edges" and "k \<noteq> []"
  shows "occurrences (state (to_node e)) k = occurrences st k"
proof -
  from assms(1) obtain col where col: "currentColumn st = Some col"
    and edges: "edges = leftEdges (SNode st) @ rightEdges (SNode st) @
                  dropEdges (SNode st) col @ pickEdges (SNode st) col"
    by (auto simp: outgoingEdges_def split: option.splits)
  from assms(2) edges consider "e \<in> set (leftEdges (SNode st))" | "e \<in> set (rightEdges (SNode st))"
    | "e \<in> set (dropEdges (SNode st) col)" | "e \<in> set (pickEdges (SNode st) col)"
    by auto
  then show ?thesis
    using leftEdges_occurrences rightEdges_occurrences dropEdges_occurrences [OF col]
      pickEdges_occurrences [OF col _ assms(3)]
    by cases auto
qed

lemma reachable_occurrences:
  "reachable start st \<Longrightarrow> k \<noteq> [] \<Longrightarrow> occurrences st k = occurrences start k"
  by (induction rule: reachable.induct) (auto dest: outgoingEdges_occurrences)

text \<open>
  Away from the empty-string key the invariant is kept: when no key of the list is the
  empty string and the start state places every key of the list exactly once (held, or once
  in one stack), so does every state that the transitions of \<open>outgoingEdges\<close> reach from
  it: every successor, and every successor of a successor.
\<close>

lemma reachable_placedOnce:
  assumes "[] \<notin> set keys" and "placedOnce keys start" and "reachable start st"
  shows "placedOnce keys st"
proof -
  have "occurrences st k = 1" if "k \<in> set keys" for k
  proof -
    from that assms(1) have "k \<noteq> []" by auto
    with reachable_occurrences [OF assms(3)] have "occurrences st k = occurrences start k" .
    with that assms(2) show ?thesis
      by (simp add: placedOnce_def list_all_iff)
  qed
  then show ?thesis
    by (simp add: placedOnce_def list_all_iff)
qed

lemma reachable_placedOnce_example:
  "[] \<notin> set [''a'', ''b'', ''k'', ''m''] \<and>
   placedOnce [''a'', ''b'', ''k'', ''m''] exampleWorld \<and>
   reachable exampleWorld exampleWorldPicked \<and>
   placedOnce [''a'', ''b'', ''k'', ''m''] exampleWorldPicked"
proof -
  have k: "[] \<notin> set [''a'', ''b'', ''k'', ''m'']"
    by simp
  have p: "placedOnce [''a'', ''b'', ''k'', ''m''] exampleWorld"
    by code_simp
  have o: "outgoingEdges (SNode exampleWorld) =
     Inr [mkEdge (SNode exampleWorld) (exampleWorld\<lparr>arm := 1\<rparr>) ''r'',
          mkEdge (SNode exampleWorld) exampleWorldPicked ''p'']"
    by code_simp
  have "reachable exampleWorld
          (state (to_node (mkEdge (SNode exampleWorld) exampleWorldPicked ''p'')))"
    by (rule reachable_edge [OF reachable_start o]) simp
  then have r: "reachable exampleWorld exampleWorldPicked"
    by (simp add: mkEdge_def)
  from k p r reachable_placedOnce [OF k p r] show ?thesis
    by blast
qed

text \<open>
  C4. Every successor that \<open>outgoingEdges\<close> produces from a state placing every key in
  exactly one place should place every key in exactly one place. The code breaks this at a
  held key \<open>""\<close>: the start state below places \<open>""\<close> (held) and \<open>a\<close> (in the only
  column) once each; \<open>!node.state.holding\<close> reads the held \<open>""\<close> as nothing held, the
  only edge is a \<open>pick\<close>, and its target holds \<open>a\<close> over an empty column, so the key
  \<open>""\<close> is in no place. Elsewhere the code treats such a key as held
  (\<open>state.holding != null\<close>, \<open>holding == searched_object\<close>).
\<close>

theorem placedOnce_empty_key_counterexample:
  "placedOnce [[], ''a''] emptyKeyWorld \<and>
   outgoingEdges (SNode emptyKeyWorld) =
     Inr [mkEdge (SNode emptyKeyWorld) emptyKeyWorldPicked ''p''] \<and>
   \<not> placedOnce [[], ''a''] emptyKeyWorldPicked"
  by code_simp

subsection \<open>The drop transition\<close>

lemma leftEdges_command: "e \<in> set (leftEdges node) \<Longrightarrow> command e = ''l''"
  by (auto simp: leftEdges_def mkEdge_def split: if_splits)

lemma rightEdges_command: "e \<in> set (rightEdges node) \<Longrightarrow> command e = ''r''"
  by (auto simp: rightEdges_def mkEdge_def split: if_splits)

lemma pickEdges_command: "e \<in> set (pickEdges node col) \<Longrightarrow> command e = ''p''"
  by (auto simp: pickEdges_def mkEdge_def split: if_splits)

lemma dropEdges_char:
  "dropEdges (SNode st) col =
     (if canDrop st col
      then [mkEdge (SNode st)
              \<lparr>stacks = (stacks st)[nat (arm st) := col @ [the (holding st)]],
               holding = None, arm = arm st, objects = objects st,
               examples = examples st\<rparr> ''d'']
      else [])"
  by (cases "holding st") (auto simp: dropEdges_def canDrop_def)

lemma canDrop_char:
  "canDrop st col =
     (\<exists>h. holding st = Some h \<and> h \<noteq> [] \<and>
          (col = [] \<or> last col = [] \<or>
           isMoveValid h ''ontop'' (last col) st \<or> isMoveValid h ''inside'' (last col) st))"
  by (cases "holding st") (auto simp: canDrop_def topOf_def)

lemma drop_in_edges:
  assumes "outgoingEdges (SNode st) = Inr edges" and "currentColumn st = Some col"
  shows "(e \<in> set edges \<and> command e = ''d'') = (e \<in> set (dropEdges (SNode st) col))"
proof -
  from assms have edges: "edges = leftEdges (SNode st) @ rightEdges (SNode st) @
                  dropEdges (SNode st) col @ pickEdges (SNode st) col"
    by (auto simp: outgoingEdges_def)
  have "command e = ''d''" if "e \<in> set (dropEdges (SNode st) col)"
    using that by (auto simp: dropEdges_char mkEdge_def split: if_splits)
  then show ?thesis
    unfolding edges
    using leftEdges_command [of e "SNode st"] rightEdges_command [of e "SNode st"]
      pickEdges_command [of e "SNode st" col]
    by auto
qed

text \<open>
  What the drop test computes on every state. From a node whose arm is over a column
  \<open>col\<close>, \<open>outgoingEdges\<close> returns, and it holds a drop edge exactly when a key is held
  that is not the empty string and the column is empty, or its top key is the empty string,
  or the held key may go \<open>ontop\<close> of or \<open>inside\<close> the top object by \<open>isMoveValid\<close>.
  The target of a drop edge holds nothing, has the arm where it was, the held key pushed on
  top of the column under the arm, and every other column and the object table unchanged.
\<close>

lemma drop_transition:
  assumes "currentColumn st = Some col"
  shows "\<exists>edges. outgoingEdges (SNode st) = Inr edges \<and>
     (list_ex (\<lambda>e. command e = ''d'') edges =
        (\<exists>h. holding st = Some h \<and> h \<noteq> [] \<and>
             (col = [] \<or> last col = [] \<or>
              isMoveValid h ''ontop'' (last col) st \<or> isMoveValid h ''inside'' (last col) st))) \<and>
     (\<forall>e \<in> set edges. command e = ''d'' \<longrightarrow>
        (\<exists>h. holding st = Some h \<and>
             holding (state (to_node e)) = None \<and>
             arm (state (to_node e)) = arm st \<and>
             length (stacks (state (to_node e))) = length (stacks st) \<and>
             stacks (state (to_node e)) ! nat (arm st) = col @ [h] \<and>
             (\<forall>i. i \<noteq> nat (arm st) \<longrightarrow> stacks (state (to_node e)) ! i = stacks st ! i) \<and>
             objects (state (to_node e)) = objects st))"
proof -
  from assms obtain edges where edges: "outgoingEdges (SNode st) = Inr edges"
    by (auto simp: outgoingEdges_def)
  from assms have inrange: "nat (arm st) < length (stacks st)"
    by (auto simp: currentColumn_def split: if_splits)
  have d: "(e \<in> set edges \<and> command e = ''d'') = (e \<in> set (dropEdges (SNode st) col))" for e
    using edges assms by (rule drop_in_edges)
  have "list_ex (\<lambda>e. command e = ''d'') edges = (\<exists>e. e \<in> set edges \<and> command e = ''d'')"
    by (auto simp: list_ex_iff)
  also have "\<dots> = canDrop st col"
    unfolding d by (simp add: dropEdges_char)
  finally have iff: "list_ex (\<lambda>e. command e = ''d'') edges = canDrop st col" .
  have res: "\<exists>h. holding st = Some h \<and>
        holding (state (to_node e)) = None \<and>
        arm (state (to_node e)) = arm st \<and>
        length (stacks (state (to_node e))) = length (stacks st) \<and>
        stacks (state (to_node e)) ! nat (arm st) = col @ [h] \<and>
        (\<forall>i. i \<noteq> nat (arm st) \<longrightarrow> stacks (state (to_node e)) ! i = stacks st ! i) \<and>
        objects (state (to_node e)) = objects st"
    if "e \<in> set edges" "command e = ''d''" for e
  proof -
    from that d have "e \<in> set (dropEdges (SNode st) col)" by blast
    then show ?thesis
      using inrange
      by (cases "holding st") (auto simp: dropEdges_def mkEdge_def split: if_splits)
  qed
  from edges iff res show ?thesis
    unfolding canDrop_char by blast
qed

lemma drop_transition_example:
  "currentColumn exampleWorldHolding = Some [''m''] \<and>
   isMoveValid ''b'' ''inside'' ''m'' exampleWorldHolding \<and>
   (\<exists>edges. outgoingEdges (SNode exampleWorldHolding) = Inr edges \<and>
            list_ex (\<lambda>e. command e = ''d'') edges)"
proof -
  have c: "currentColumn exampleWorldHolding = Some [''m'']"
    by code_simp
  have v: "isMoveValid ''b'' ''inside'' ''m'' exampleWorldHolding"
    by code_simp
  have h: "holding exampleWorldHolding = Some ''b''"
    by (simp add: exampleWorldHolding_def)
  from drop_transition [OF c] obtain edges where
    "outgoingEdges (SNode exampleWorldHolding) = Inr edges" and
    "list_ex (\<lambda>e. command e = ''d'') edges =
       (\<exists>h. holding exampleWorldHolding = Some h \<and> h \<noteq> [] \<and>
            ([''m''] = [] \<or> last [''m''] = [] \<or>
             isMoveValid h ''ontop'' (last [''m'']) exampleWorldHolding \<or>
             isMoveValid h ''inside'' (last [''m'']) exampleWorldHolding))"
    by blast
  with c v h show ?thesis
    by auto
qed

text \<open>
  When neither the held key nor a key of the column is the empty string, the drop edge is
  there exactly when a key is held and the column is empty or the held key may go
  \<open>ontop\<close> of or \<open>inside\<close> its top object.
\<close>

lemma drop_transition_nonempty_keys:
  assumes "currentColumn st = Some col" and "[] \<notin> set col" and "holding st \<noteq> Some []"
  shows "\<exists>edges. outgoingEdges (SNode st) = Inr edges \<and>
     (list_ex (\<lambda>e. command e = ''d'') edges =
        (\<exists>h. holding st = Some h \<and>
             (col = [] \<or> isMoveValid h ''ontop'' (last col) st \<or>
              isMoveValid h ''inside'' (last col) st)))"
proof -
  from drop_transition [OF assms(1)] obtain edges where
    e: "outgoingEdges (SNode st) = Inr edges" and
    iff: "list_ex (\<lambda>e. command e = ''d'') edges =
        (\<exists>h. holding st = Some h \<and> h \<noteq> [] \<and>
             (col = [] \<or> last col = [] \<or>
              isMoveValid h ''ontop'' (last col) st \<or> isMoveValid h ''inside'' (last col) st))"
    by blast
  have top: "col \<noteq> [] \<Longrightarrow> last col \<noteq> []"
    using assms(2) last_in_set by metis
  have "(\<exists>h. holding st = Some h \<and> h \<noteq> [] \<and>
             (col = [] \<or> last col = [] \<or>
              isMoveValid h ''ontop'' (last col) st \<or> isMoveValid h ''inside'' (last col) st)) =
        (\<exists>h. holding st = Some h \<and>
             (col = [] \<or> isMoveValid h ''ontop'' (last col) st \<or>
              isMoveValid h ''inside'' (last col) st))"
    using top assms(3) by auto
  with e iff show ?thesis by simp
qed

text \<open>
  C5. A drop edge should be generated exactly when a key is held and the column under the
  arm is empty or the held key may go \<open>ontop\<close> of or \<open>inside\<close> its top object. The code
  breaks this at a top key \<open>""\<close>: below the box \<open>a\<close> is held, the column is not empty,
  a box may go neither on top of nor inside the brick on it, and the drop edge is generated
  all the same, because \<open>targetObject ? ... : true\<close> reads the top key \<open>""\<close> as an empty
  column and skips both validity checks.
\<close>

theorem drop_empty_key_counterexample:
  "holding emptyKeyOnTop = Some ''a'' \<and>
   currentColumn emptyKeyOnTop = Some [[]] \<and>
   \<not> isMoveValid ''a'' ''ontop'' [] emptyKeyOnTop \<and>
   \<not> isMoveValid ''a'' ''inside'' [] emptyKeyOnTop \<and>
   outgoingEdges (SNode emptyKeyOnTop) = Inr [mkEdge (SNode emptyKeyOnTop) emptyKeyDropped ''d'']"
  by code_simp

subsection \<open>The goal test\<close>

text \<open>
  On formulas whose conjunctions are single literals of polarity true (all that
  \<open>interpretCommand\<close> returns) the goal test is the satisfaction of the formula.
\<close>

lemma isGoal_single_literals:
  assumes "list_all (\<lambda>cj. \<exists>lit. cj = [lit] \<and> polarity lit) formula"
  shows "isGoal formula node = Inr (formulaSatisfied formula (state node))"
  using assms
  by (induction formula) (auto simp: formulaSatisfied_def literalTrue_def)

text \<open>
  C1 at a conjunction of two literals: in the example world with \<open>b\<close> held, \<open>holding(b)\<close>
  is true and \<open>ontop(a,k)\<close> is false, so the formula \<open>holding(b) & ontop(a,k)\<close> is not
  satisfied; the goal test reads the first literal only and returns true.
\<close>

theorem isGoal_first_literal_only:
  "isGoal heldAndOnBox (SNode exampleWorldHolding) = Inr True \<and>
   \<not> formulaSatisfied heldAndOnBox exampleWorldHolding"
  by code_simp

subsection \<open>compareNodes\<close>

lemma compareStack_prefix:
  "\<not> compareStack xs ys \<Longrightarrow> length ys \<le> length xs \<and> take (length ys) xs = ys"
  by (induction xs ys rule: compareStack.induct) (auto split: if_splits)

lemma compareStack_same: "[] \<notin> set xs \<Longrightarrow> \<not> compareStack xs xs"
  by (induction xs) auto

lemma compareStacks_le:
  "compareStacks xss yss = Inr 0 \<Longrightarrow> length xss = length yss \<Longrightarrow>
   length (concat yss) \<le> length (concat xss)"
proof (induction xss yss rule: compareStacks.induct)
  case (3 xs xss ys yss)
  then show ?case
    using compareStack_prefix [of xs ys] by (auto split: if_splits)
qed auto

lemma compareStacks_eq:
  "compareStacks xss yss = Inr 0 \<Longrightarrow> length xss = length yss \<Longrightarrow>
   length (concat xss) = length (concat yss) \<Longrightarrow> xss = yss"
proof (induction xss yss rule: compareStacks.induct)
  case (3 xs xss ys yss)
  from "3.prems" have nc: "\<not> compareStack xs ys" and rest: "compareStacks xss yss = Inr 0"
    and len: "length xss = length yss"
    by (auto split: if_splits)
  from compareStack_prefix [OF nc] have p: "length ys \<le> length xs" "take (length ys) xs = ys"
    by auto
  from compareStacks_le [OF rest len] "3.prems"(3) p(1)
  have "length xs = length ys" "length (concat xss) = length (concat yss)"
    by auto
  with p(2) "3.IH" nc rest len show ?case
    by auto
qed auto

lemma compareStacks_same: "[] \<notin> set (concat xss) \<Longrightarrow> compareStacks xss xss = Inr 0"
  by (induction xss) (auto simp: compareStack_same)

text \<open>
  Between two states with the same number of columns and of stacked objects, and no
  empty-string key in the stacks (any two states of one search from a well-formed start),
  \<open>compareNodes\<close> returns 0 exactly for equal holding, arm and stacks.
\<close>

lemma compareNodes_exact:
  assumes "length (stacks (state one)) = length (stacks (state theOther))"
    and "length (concat (stacks (state one))) = length (concat (stacks (state theOther)))"
    and "[] \<notin> set (concat (stacks (state theOther)))"
  shows "(compareNodes one theOther = Inr 0) =
         (holding (state one) = holding (state theOther) \<and>
          arm (state one) = arm (state theOther) \<and>
          stacks (state one) = stacks (state theOther))"
  using assms compareStacks_eq [of "stacks (state one)" "stacks (state theOther)"]
    compareStacks_same [of "stacks (state theOther)"]
  by (auto simp: compareNodes_def)

text \<open>
  C2 at two nodes that differ in one column: the loops run over the elements of
  \<open>theOther\<close> only, so the extra object \<open>b\<close> of \<open>one\<close> is never compared and the answer
  is 0 (equal); with the arguments swapped the answer is 1.
\<close>

theorem compareNodes_ignores_extra_objects:
  "compareNodes (SNode exampleWorld) (SNode exampleWorldWithoutB) = Inr 0 \<and>
   compareNodes (SNode exampleWorldWithoutB) (SNode exampleWorld) = Inr 1 \<and>
   holding exampleWorld = holding exampleWorldWithoutB \<and>
   arm exampleWorld = arm exampleWorldWithoutB \<and>
   stacks exampleWorld \<noteq> stacks exampleWorldWithoutB"
  by code_simp

end
